theory Spec2Isabelle
  imports Main "HOL-Library.Char_ord" "HOL-Library.List_Lexorder" "HOL-Library.Sublist"
begin

section \<open>Builtin tools of gptscript: \<^verbatim>\<open>pkg/builtin/builtin.go\<close>\<close>

text \<open>
  The package registers five builtin tools (\<^verbatim>\<open>sys.read\<close>, \<^verbatim>\<open>sys.write\<close>,
  \<^verbatim>\<open>sys.http.get\<close>, \<^verbatim>\<open>sys.http.post\<close>, \<^verbatim>\<open>sys.abort\<close>) in the map \<^verbatim>\<open>Tools\<close>,
  looks them up (\<^verbatim>\<open>Builtin\<close>), lists them (\<^verbatim>\<open>ListTools\<close>) and implements their
  handlers. A handler decodes its JSON input with \<^verbatim>\<open>json.Unmarshal\<close> and makes one call
  to the operating system or the network.

  Go strings are byte sequences: they are \<^typ>\<open>string\<close> here, one \<^typ>\<open>char\<close> per byte.
  A Go result \<^verbatim>\<open>(string, error)\<close> is a pair of a string and an \<^verbatim>\<open>error option\<close>
  (\<open>None\<close> is \<^verbatim>\<open>nil\<close>). Everything outside the process (files, HTTP servers) is a record
  \<open>world\<close> that every handler takes and returns. Debug logging (\<^verbatim>\<open>log.Debugf\<close>) has no
  effect on results and is left out.
\<close>

subsection \<open>Errors\<close>

text \<open>
  The error values the handlers can return. \<open>Errorf\<close> is an error made by \<^verbatim>\<open>fmt.Errorf\<close>
  and carries its formatted text. The others come from the standard library and are kept
  symbolic: a JSON syntax error, a JSON value of the wrong kind for a Go field (the kind of
  the value and the field's name), a failed file operation (operation, path, cause), a
  malformed URL and a failed HTTP exchange.
\<close>

datatype error =
    SyntaxError
  | UnmarshalTypeError string string
  | PathError string string string
  | URLError string
  | TransportError string
  | Errorf string

subsection \<open>\<^verbatim>\<open>encoding/json\<close>: reading a JSON text\<close>

text \<open>
  \<^verbatim>\<open>encoding/json\<close> belongs to Go's standard library. Its decoder is modelled from its
  documented behaviour: the grammar of RFC 8259, a nesting depth of at most 10000, string
  literals coerced to well-formed UTF-8 (an invalid byte and an unpaired surrogate escape
  become U+FFFD). An object keeps its members in input order, duplicates included, because
  the decoder stores them one after the other.
\<close>

datatype json =
    JNull
  | JBool bool
  | JNumber string
  | JString string
  | JArray "json list"
  | JObject "(string \<times> json) list"

datatype token =
    TLBrace | TRBrace | TLBracket | TRBracket | TColon | TComma
  | TString string | TNumber string | TTrue | TFalse | TNull

definition isSpace :: "char \<Rightarrow> bool" where
  "isSpace c \<longleftrightarrow> c = CHR 0x20 \<or> c = CHR 0x09 \<or> c = CHR 0x0D \<or> c = CHR 0x0A"

definition isDigit :: "char \<Rightarrow> bool" where
  "isDigit c \<longleftrightarrow> CHR ''0'' \<le> c \<and> c \<le> CHR ''9''"

definition hexval :: "char \<Rightarrow> nat option" where
  "hexval c =
     (if CHR ''0'' \<le> c \<and> c \<le> CHR ''9'' then Some (of_char c - 48)
      else if CHR ''a'' \<le> c \<and> c \<le> CHR ''f'' then Some (of_char c - 87)
      else if CHR ''A'' \<le> c \<and> c \<le> CHR ''F'' then Some (of_char c - 55)
      else None)"

text \<open>\<^verbatim>\<open>getu4\<close>: the value of the four hexadecimal digits of a \<^verbatim>\<open>\uXXXX\<close> escape.\<close>

definition getu4 :: "char \<Rightarrow> char \<Rightarrow> char \<Rightarrow> char \<Rightarrow> nat option" where
  "getu4 a b c d =
     (case (hexval a, hexval b, hexval c, hexval d) of
        (Some x, Some y, Some z, Some w) \<Rightarrow> Some (((x * 16 + y) * 16 + z) * 16 + w)
      | _ \<Rightarrow> None)"

definition simple_escape :: "char \<Rightarrow> char option" where
  "simple_escape e =
     (if e = CHR 0x22 \<or> e = CHR 0x5C \<or> e = CHR ''/'' then Some e
      else if e = CHR ''b'' then Some (CHR 0x08)
      else if e = CHR ''f'' then Some (CHR 0x0C)
      else if e = CHR ''n'' then Some (CHR 0x0A)
      else if e = CHR ''r'' then Some (CHR 0x0D)
      else if e = CHR ''t'' then Some (CHR 0x09)
      else None)"

text \<open>
  A string literal is read in two passes. The first pass, \<open>scan_string\<close>, starts after
  the opening quote, checks the escapes and stops at the closing quote; it returns the
  literal as units (a byte of the text, or the 16-bit value of a \<^verbatim>\<open>\u\<close> escape) and the
  number of input bytes it read, closing quote included. A raw quote or control character
  inside the literal is a syntax error.
\<close>

datatype unit16 = Byte char | U16 nat

definition cons_unit :: "unit16 \<Rightarrow> nat \<Rightarrow> (unit16 list \<times> nat) option \<Rightarrow> (unit16 list \<times> nat) option" where
  "cons_unit u k r = (case r of None \<Rightarrow> None | Some (us, n) \<Rightarrow> Some (u # us, n + k))"

fun scan_string :: "string \<Rightarrow> (unit16 list \<times> nat) option" where
  "scan_string [] = None"
| "scan_string (c # cs) =
     (if c = CHR 0x22 then Some ([], 1)
      else if c = CHR 0x5C then
        (case cs of
           [] \<Rightarrow> None
         | e # es \<Rightarrow>
             if e = CHR ''u'' then
               (case es of
                  h1 # h2 # h3 # h4 # rest \<Rightarrow>
                    (case getu4 h1 h2 h3 h4 of
                       None \<Rightarrow> None
                     | Some r \<Rightarrow> cons_unit (U16 r) 6 (scan_string rest))
                | _ \<Rightarrow> None)
             else
               (case simple_escape e of
                  None \<Rightarrow> None
                | Some b \<Rightarrow> cons_unit (Byte b) 2 (scan_string es)))
      else if (of_char c :: nat) < 0x20 then None
      else cons_unit (Byte c) 1 (scan_string cs))"

text \<open>\<^verbatim>\<open>utf8.EncodeRune\<close> for a code point below \<^verbatim>\<open>0x110000\<close> that is no surrogate.\<close>

definition EncodeRune :: "nat \<Rightarrow> string" where
  "EncodeRune r =
     (if r < 0x80 then [char_of r]
      else if r < 0x800 then [char_of (0xC0 + r div 64), char_of (0x80 + r mod 64)]
      else if r < 0x10000 then
        [char_of (0xE0 + r div 4096), char_of (0x80 + (r div 64) mod 64), char_of (0x80 + r mod 64)]
      else
        [char_of (0xF0 + r div 262144), char_of (0x80 + (r div 4096) mod 64),
         char_of (0x80 + (r div 64) mod 64), char_of (0x80 + r mod 64)])"

definition RuneError :: string where
  "RuneError = [CHR 0xEF, CHR 0xBF, CHR 0xBD]"

text \<open>
  \<^verbatim>\<open>utf8.DecodeRune\<close>, as far as the decoder needs it: the width of the well-formed
  UTF-8 sequence that starts with the byte \<open>c\<close> and continues with the bytes \<open>bs\<close>,
  or 0 when there is none.
\<close>

definition rune_width :: "char \<Rightarrow> char list \<Rightarrow> nat" where
  "rune_width c bs =
     (let b0 = (of_char c :: nat);
          sz = (if 0xC2 \<le> b0 \<and> b0 \<le> 0xDF then 2
                else if 0xE0 \<le> b0 \<and> b0 \<le> 0xEF then 3
                else if 0xF0 \<le> b0 \<and> b0 \<le> 0xF4 then 4 else 0);
          lo = (if b0 = 0xE0 then 0xA0 else if b0 = 0xF0 then 0x90 else 0x80);
          hi = (if b0 = 0xED then 0x9F else if b0 = 0xF4 then 0x8F else 0xBF);
          ns = map (of_char :: char \<Rightarrow> nat) (take (sz - 1) bs)
      in if sz = 0 \<or> length ns < sz - 1 then 0
         else if lo \<le> hd ns \<and> hd ns \<le> hi \<and> (\<forall>b \<in> set (tl ns). 0x80 \<le> b \<and> b \<le> 0xBF)
         then sz else 0)"

fun next_bytes :: "nat \<Rightarrow> unit16 list \<Rightarrow> char list" where
  "next_bytes (Suc n) (Byte c # us) = c # next_bytes n us"
| "next_bytes _ _ = []"

text \<open>
  The second pass, \<open>decode_units\<close>, is \<^verbatim>\<open>unquote\<close>: a high surrogate escape directly
  followed by a low surrogate escape is one code point, any other surrogate escape is
  U+FFFD; a raw byte from \<^verbatim>\<open>0x80\<close> on must start a well-formed UTF-8 sequence of raw
  bytes, which is copied, and is replaced by U+FFFD otherwise.
\<close>

fun decode_units :: "unit16 list \<Rightarrow> string" where
  "decode_units [] = []"
| "decode_units (U16 a # us) =
     (if 0xD800 \<le> a \<and> a < 0xE000 then
        (case us of
           U16 b # us' \<Rightarrow>
             if a < 0xDC00 \<and> 0xDC00 \<le> b \<and> b < 0xE000
             then EncodeRune (0x10000 + (a - 0xD800) * 1024 + (b - 0xDC00)) @ decode_units us'
             else RuneError @ decode_units us
         | _ \<Rightarrow> RuneError @ decode_units us)
      else EncodeRune a @ decode_units us)"
| "decode_units (Byte c # us) =
     (if (of_char c :: nat) < 0x80 then c # decode_units us
      else
        (let w = rune_width c (next_bytes 3 us)
         in if w = 0 then RuneError @ decode_units us
            else c # next_bytes (w - 1) us @ decode_units (drop (w - 1) us)))"

text \<open>
  The length of the number literal at the start of the input, if there is one:
  an optional minus, \<^verbatim>\<open>0\<close> or a digit sequence without leading zero, an optional
  fraction, an optional exponent.
\<close>

definition digits_len :: "string \<Rightarrow> nat" where
  "digits_len cs = length (takeWhile isDigit cs)"

definition scan_frac :: "string \<Rightarrow> nat option" where
  "scan_frac cs =
     (case cs of
        c # ds \<Rightarrow>
          if c = CHR ''.'' then (if digits_len ds = 0 then None else Some (1 + digits_len ds))
          else Some 0
      | [] \<Rightarrow> Some 0)"

definition scan_exp :: "string \<Rightarrow> nat option" where
  "scan_exp cs =
     (case cs of
        c # ds \<Rightarrow>
          if c = CHR ''e'' \<or> c = CHR ''E'' then
            (let s = (case ds of d # _ \<Rightarrow> if d = CHR ''+'' \<or> d = CHR ''-'' then 1 else 0 | [] \<Rightarrow> 0);
                 k = digits_len (drop s ds)
             in if k = 0 then None else Some (1 + s + k))
          else Some 0
      | [] \<Rightarrow> Some 0)"

definition scan_int :: "string \<Rightarrow> nat option" where
  "scan_int cs =
     (case cs of
        [] \<Rightarrow> None
      | d # ds \<Rightarrow>
          if d = CHR ''0'' then Some 1
          else if isDigit d then Some (1 + digits_len ds)
          else None)"

definition scan_number :: "string \<Rightarrow> nat option" where
  "scan_number cs =
     (let m = (case cs of c # _ \<Rightarrow> if c = CHR ''-'' then 1 else 0 | [] \<Rightarrow> 0)
      in case scan_int (drop m cs) of
           None \<Rightarrow> None
         | Some i \<Rightarrow>
             (case scan_frac (drop (m + i) cs) of
                None \<Rightarrow> None
              | Some f \<Rightarrow>
                  (case scan_exp (drop (m + i + f) cs) of
                     None \<Rightarrow> None
                   | Some e \<Rightarrow> Some (m + i + f + e))))"

definition cons_token :: "token \<Rightarrow> token list option \<Rightarrow> token list option" where
  "cons_token t r = (case r of None \<Rightarrow> None | Some ts \<Rightarrow> Some (t # ts))"

fun lex :: "string \<Rightarrow> token list option" where
  "lex [] = Some []"
| "lex (c # cs) =
     (if isSpace c then lex cs
      else if c = CHR ''{'' then cons_token TLBrace (lex cs)
      else if c = CHR ''}'' then cons_token TRBrace (lex cs)
      else if c = CHR ''['' then cons_token TLBracket (lex cs)
      else if c = CHR '']'' then cons_token TRBracket (lex cs)
      else if c = CHR '':'' then cons_token TColon (lex cs)
      else if c = CHR '','' then cons_token TComma (lex cs)
      else if c = CHR 0x22 then
        (case scan_string cs of
           None \<Rightarrow> None
         | Some (us, n) \<Rightarrow> cons_token (TString (decode_units us)) (lex (drop n cs)))
      else if c = CHR ''-'' \<or> isDigit c then
        (case scan_number (c # cs) of
           None \<Rightarrow> None
         | Some n \<Rightarrow> cons_token (TNumber (take n (c # cs))) (lex (drop (n - 1) cs)))
      else if prefix ''true'' (c # cs) then cons_token TTrue (lex (drop 3 cs))
      else if prefix ''false'' (c # cs) then cons_token TFalse (lex (drop 4 cs))
      else if prefix ''null'' (c # cs) then cons_token TNull (lex (drop 3 cs))
      else None)"

text \<open>
  The tokens are assembled with an explicit stack of the open arrays and objects, as the
  scanner of \<^verbatim>\<open>encoding/json\<close> does (\<^verbatim>\<open>parseState\<close>). A frame holds what its container
  has collected, latest first; the frame of an object also holds the key that is waiting
  for its value. Opening a container when 10000 are open is an error
  (\<^verbatim>\<open>maxNestingDepth\<close>).
\<close>

datatype frame = FArray "json list" | FObject "(string \<times> json) list" "string option"

datatype mode =
    MValue
  | MArrayStart
  | MObjectStart
  | MObjectKey
  | MColon
  | MAfter
  | MEnd json

definition maxNestingDepth :: nat where
  "maxNestingDepth = 10000"

text \<open>A value is complete: it is the result, or it goes into the innermost open container.\<close>

fun finish_value :: "json \<Rightarrow> frame list \<Rightarrow> (mode \<times> frame list) option" where
  "finish_value v [] = Some (MEnd v, [])"
| "finish_value v (FArray acc # st) = Some (MAfter, FArray (v # acc) # st)"
| "finish_value v (FObject acc (Some k) # st) = Some (MAfter, FObject ((k, v) # acc) None # st)"
| "finish_value v (FObject acc None # st) = None"

definition begin_value :: "token \<Rightarrow> frame list \<Rightarrow> (mode \<times> frame list) option" where
  "begin_value t st =
     (case t of
        TString s \<Rightarrow> finish_value (JString s) st
      | TNumber n \<Rightarrow> finish_value (JNumber n) st
      | TTrue \<Rightarrow> finish_value (JBool True) st
      | TFalse \<Rightarrow> finish_value (JBool False) st
      | TNull \<Rightarrow> finish_value JNull st
      | TLBracket \<Rightarrow>
          if length st < maxNestingDepth then Some (MArrayStart, FArray [] # st) else None
      | TLBrace \<Rightarrow>
          if length st < maxNestingDepth then Some (MObjectStart, FObject [] None # st) else None
      | _ \<Rightarrow> None)"

definition end_array :: "frame list \<Rightarrow> (mode \<times> frame list) option" where
  "end_array st =
     (case st of FArray acc # st' \<Rightarrow> finish_value (JArray (rev acc)) st' | _ \<Rightarrow> None)"

definition end_object :: "frame list \<Rightarrow> (mode \<times> frame list) option" where
  "end_object st =
     (case st of FObject acc None # st' \<Rightarrow> finish_value (JObject (rev acc)) st' | _ \<Rightarrow> None)"

definition begin_key :: "token \<Rightarrow> frame list \<Rightarrow> (mode \<times> frame list) option" where
  "begin_key t st =
     (case (t, st) of
        (TString k, FObject acc None # st') \<Rightarrow> Some (MColon, FObject acc (Some k) # st')
      | _ \<Rightarrow> None)"

definition step :: "mode \<Rightarrow> frame list \<Rightarrow> token \<Rightarrow> (mode \<times> frame list) option" where
  "step m st t =
     (case m of
        MValue \<Rightarrow> begin_value t st
      | MArrayStart \<Rightarrow> if t = TRBracket then end_array st else begin_value t st
      | MObjectStart \<Rightarrow> if t = TRBrace then end_object st else begin_key t st
      | MObjectKey \<Rightarrow> begin_key t st
      | MColon \<Rightarrow> if t = TColon then Some (MValue, st) else None
      | MAfter \<Rightarrow>
          (case st of
             FArray acc # st' \<Rightarrow>
               if t = TComma then Some (MValue, st)
               else if t = TRBracket then end_array st else None
           | FObject acc k # st' \<Rightarrow>
               if t = TComma then Some (MObjectKey, st)
               else if t = TRBrace then end_object st else None
           | [] \<Rightarrow> None)
      | MEnd v \<Rightarrow> None)"

fun parse_tokens :: "mode \<Rightarrow> frame list \<Rightarrow> token list \<Rightarrow> json option" where
  "parse_tokens m st [] = (case m of MEnd v \<Rightarrow> Some v | _ \<Rightarrow> None)"
| "parse_tokens m st (t # ts) =
     (case step m st t of
        None \<Rightarrow> None
      | Some (m', st') \<Rightarrow> parse_tokens m' st' ts)"

text \<open>\<open>parse_json\<close>: the JSON value a text denotes, \<open>None\<close> when the text is not JSON.\<close>

definition parse_json :: "string \<Rightarrow> json option" where
  "parse_json input =
     (case lex input of None \<Rightarrow> None | Some ts \<Rightarrow> parse_tokens MValue [] ts)"

subsection \<open>\<^verbatim>\<open>encoding/json\<close>: \<^verbatim>\<open>Unmarshal\<close> into a struct of string fields\<close>

text \<open>
  Every handler declares its parameters as an anonymous struct of string fields, each
  tagged with its JSON name. The struct is a function from the JSON names to the
  field values; a variable declared by \<^verbatim>\<open>var params struct{...}\<close> starts with every field
  empty.
\<close>

type_synonym params = "string \<Rightarrow> string"

definition zero_params :: params where
  "zero_params = (\<lambda>_. [])"

text \<open>
  \<^verbatim>\<open>Unmarshal\<close> takes the field whose name is the key and, when there is none, the first
  field whose name equals the key under case folding (\<^verbatim>\<open>foldName\<close>, Unicode simple
  folding). The names here are ASCII, so what matters of the folding is what it maps to
  ASCII letters: the small letters, U+017F (long s, bytes C5 BF) and U+212A (Kelvin sign,
  bytes E2 84 AA). A key that matches no field is skipped.
\<close>

fun foldName :: "string \<Rightarrow> string" where
  "foldName [] = []"
| "foldName (c # cs) =
     (if CHR ''a'' \<le> c \<and> c \<le> CHR ''z'' then char_of (of_char c - (32::nat)) # foldName cs
      else if c = CHR 0xC5 \<and> prefix [CHR 0xBF] cs then CHR ''S'' # foldName (drop 1 cs)
      else if c = CHR 0xE2 \<and> prefix [CHR 0x84, CHR 0xAA] cs then CHR ''K'' # foldName (drop 2 cs)
      else c # foldName cs)"

definition find_field :: "string list \<Rightarrow> string \<Rightarrow> string option" where
  "find_field fields key =
     (if key \<in> set fields then Some key
      else find (\<lambda>f. foldName f = foldName key) fields)"

definition json_kind :: "json \<Rightarrow> string" where
  "json_kind v =
     (case v of
        JNull \<Rightarrow> ''null'' | JBool b \<Rightarrow> ''bool'' | JNumber n \<Rightarrow> ''number''
      | JString s \<Rightarrow> ''string'' | JArray vs \<Rightarrow> ''array'' | JObject kvs \<Rightarrow> ''object'')"

text \<open>\<^verbatim>\<open>saveError\<close> keeps the first error; decoding goes on after it.\<close>

definition saveError :: "error option \<Rightarrow> error \<Rightarrow> error option" where
  "saveError saved e = (case saved of None \<Rightarrow> Some e | Some e' \<Rightarrow> Some e')"

text \<open>
  One member of the object: a string is stored in the field, \<^verbatim>\<open>null\<close> leaves the field
  as it is, any other value is a type error.
\<close>

definition store_member :: "string list \<Rightarrow> string \<Rightarrow> json \<Rightarrow> error option \<times> params \<Rightarrow> error option \<times> params" where
  "store_member fields key v acc =
     (case find_field fields key of
        None \<Rightarrow> acc
      | Some f \<Rightarrow>
          (case v of
             JString s \<Rightarrow> (fst acc, (snd acc)(f := s))
           | JNull \<Rightarrow> acc
           | _ \<Rightarrow> (saveError (fst acc) (UnmarshalTypeError (json_kind v) f), snd acc)))"

fun store_members :: "string list \<Rightarrow> (string \<times> json) list \<Rightarrow> error option \<times> params \<Rightarrow> error option \<times> params" where
  "store_members fields [] acc = acc"
| "store_members fields ((key, v) # kvs) acc =
     store_members fields kvs (store_member fields key v acc)"

text \<open>
  A struct is filled from an object; \<^verbatim>\<open>null\<close> leaves it untouched; any other value is a
  type error.
\<close>

definition decode_struct :: "string list \<Rightarrow> json \<Rightarrow> error + params" where
  "decode_struct fields v =
     (case v of
        JNull \<Rightarrow> Inr zero_params
      | JObject kvs \<Rightarrow>
          (case store_members fields kvs (None, zero_params) of
             (None, p) \<Rightarrow> Inr p
           | (Some e, p) \<Rightarrow> Inl e)
      | _ \<Rightarrow> Inl (UnmarshalTypeError (json_kind v) []))"

text \<open>
  \<^verbatim>\<open>json.Unmarshal([]byte(input), &params)\<close> for a struct with the given field names:
  the whole text is checked first (\<^verbatim>\<open>checkValid\<close>), then decoded.
\<close>

definition json_Unmarshal :: "string list \<Rightarrow> string \<Rightarrow> error + params" where
  "json_Unmarshal fields input =
     (case parse_json input of
        None \<Rightarrow> Inl SyntaxError
      | Some v \<Rightarrow> decode_struct fields v)"

subsection \<open>The world: files and HTTP\<close>

text \<open>
  \<^verbatim>\<open>context.Context\<close>: the background context, which is never cancelled, or a context of
  the caller.
\<close>

datatype Context = Background | Caller nat

record request =
  req_Ctx :: Context
  req_Method :: string
  req_URL :: string
  req_Header :: "(string \<times> string) list"
  req_Body :: string

text \<open>
  An HTTP response: the status line, the status code, and what reading the body to its
  end gives (\<^verbatim>\<open>io.ReadAll(resp.Body)\<close>).
\<close>

record response =
  Status :: string
  StatusCode :: int
  Body :: "error + string"

datatype io_event =
    ReadFileEvent string
  | WriteFileEvent string string nat
  | HTTPEvent request

text \<open>
  What a path names. A regular file has its contents and the two permissions as they
  apply to the process: whether it may open the file for reading, and for writing. A
  device or pipe takes what is written to it and keeps nothing of it; reading it gives
  data of its own (nothing at all for \<^verbatim>\<open>/dev/null\<close>).
\<close>

datatype node =
    File string bool bool
  | Device string

text \<open>
  The filesystem maps paths to nodes. \<open>umask\<close> is the file mode creation mask of the
  process. \<open>no_access\<close> gives, for a path that cannot be opened at all (a directory on the
  way that is missing or closed to the process, a path that is a directory), the cause.
  \<open>url_error\<close> is the verdict of \<^verbatim>\<open>url.Parse\<close> on a URL, \<open>round_trip\<close> what sending
  a request gives: an error of the transport, or the server's response. \<open>trace\<close> records
  every operation a handler starts on the filesystem or the network.
\<close>

record world =
  files :: "string \<Rightarrow> node option"
  umask :: nat
  no_access :: "string \<Rightarrow> string option"
  url_error :: "string \<Rightarrow> error option"
  round_trip :: "request \<Rightarrow> error + response"
  trace :: "io_event list"

definition ENOENT :: string where
  "ENOENT = ''no such file or directory''"

definition EACCES :: string where
  "EACCES = ''permission denied''"

text \<open>
  A permission of a file that is created with the mode \<open>perm\<close>: the bit \<open>b\<close> (256 for
  reading by the owner, 128 for writing) is set in \<open>perm\<close> and not masked.
\<close>

definition created_with :: "nat \<Rightarrow> nat \<Rightarrow> nat \<Rightarrow> bool" where
  "created_with b perm um \<longleftrightarrow> odd (perm div b) \<and> even (um div b)"

definition log_event :: "io_event \<Rightarrow> world \<Rightarrow> world" where
  "log_event ev w = w\<lparr>trace := trace w @ [ev]\<rparr>"

text \<open>
  \<^verbatim>\<open>os.ReadFile\<close> opens the path for reading and reads to the end: the contents of a
  regular file that the process may read, the data of a device. The empty path names
  nothing.
\<close>

definition os_ReadFile :: "string \<Rightarrow> world \<Rightarrow> (error + string) \<times> world" where
  "os_ReadFile name w =
     (let w' = log_event (ReadFileEvent name) w
      in if name = [] then (Inl (PathError ''open'' name ENOENT), w')
         else case no_access w name of
                Some cause \<Rightarrow> (Inl (PathError ''open'' name cause), w')
              | None \<Rightarrow>
                  (case files w name of
                     None \<Rightarrow> (Inl (PathError ''open'' name ENOENT), w')
                   | Some (File data may_read may_write) \<Rightarrow>
                       if may_read then (Inr data, w')
                       else (Inl (PathError ''open'' name EACCES), w')
                   | Some (Device out) \<Rightarrow> (Inr out, w')))"

text \<open>
  \<^verbatim>\<open>os.WriteFile\<close> opens the path for writing, creating or truncating, and writes the
  data. A path that names nothing becomes a regular file with the data and the
  permissions of \<open>perm\<close> under the mask. A regular file that the process may write gets
  the data and keeps its permissions. A device takes the data and the filesystem stays as
  it is.
\<close>

definition os_WriteFile :: "string \<Rightarrow> string \<Rightarrow> nat \<Rightarrow> world \<Rightarrow> error option \<times> world" where
  "os_WriteFile name data perm w =
     (let w' = log_event (WriteFileEvent name data perm) w
      in if name = [] then (Some (PathError ''open'' name ENOENT), w')
         else case no_access w name of
                Some cause \<Rightarrow> (Some (PathError ''open'' name cause), w')
              | None \<Rightarrow>
                  (case files w name of
                     None \<Rightarrow>
                       (None, w'\<lparr>files := (files w')(name \<mapsto>
                          File data (created_with 256 perm (umask w)) (created_with 128 perm (umask w)))\<rparr>)
                   | Some (File old may_read may_write) \<Rightarrow>
                       if may_write
                       then (None, w'\<lparr>files := (files w')(name \<mapsto> File data may_read may_write)\<rparr>)
                       else (Some (PathError ''open'' name EACCES), w')
                   | Some (Device out) \<Rightarrow> (None, w')))"


text \<open>\<^verbatim>\<open>http.NewRequestWithContext\<close>: fails on a URL that does not parse.\<close>

definition http_NewRequestWithContext :: "Context \<Rightarrow> string \<Rightarrow> string \<Rightarrow> string \<Rightarrow> world \<Rightarrow> error + request" where
  "http_NewRequestWithContext ctx method url body w =
     (case url_error w url of
        Some err \<Rightarrow> Inl err
      | None \<Rightarrow>
          Inr \<lparr>req_Ctx = ctx, req_Method = method, req_URL = url, req_Header = [], req_Body = body\<rparr>)"

text \<open>\<^verbatim>\<open>req.Header.Set\<close>: the value replaces what the header had.\<close>

definition Header_Set :: "string \<Rightarrow> string \<Rightarrow> request \<Rightarrow> request" where
  "Header_Set key v req =
     req\<lparr>req_Header := (key, v) # filter (\<lambda>kv. fst kv \<noteq> key) (req_Header req)\<rparr>"

text \<open>\<^verbatim>\<open>http.DefaultClient.Do\<close>: sends the request.\<close>

definition client_Do :: "request \<Rightarrow> world \<Rightarrow> (error + response) \<times> world" where
  "client_Do req w = (round_trip w req, log_event (HTTPEvent req) w)"

text \<open>
  \<^verbatim>\<open>http.Get\<close>: a \<^verbatim>\<open>GET\<close> request without body under the background context, sent
  with the default client.
\<close>

definition http_Get :: "string \<Rightarrow> world \<Rightarrow> (error + response) \<times> world" where
  "http_Get url w =
     (case http_NewRequestWithContext Background ''GET'' url [] w of
        Inl err \<Rightarrow> (Inl err, w)
      | Inr req \<Rightarrow> client_Do req w)"

text \<open>\<^verbatim>\<open>%d\<close> of \<^verbatim>\<open>fmt\<close> for a length: the decimal digits.\<close>

fun itoa :: "nat \<Rightarrow> string" where
  "itoa n = (if n < 10 then [char_of (48 + n)] else itoa (n div 10) @ [char_of (48 + n mod 10)])"

subsection \<open>The handlers\<close>

text \<open>
  A handler takes the context, the environment and the JSON input, and returns a string
  and an error. The world is threaded through.
\<close>

type_synonym BuiltinFunc = "Context \<Rightarrow> string list \<Rightarrow> string \<Rightarrow> world \<Rightarrow> (string \<times> error option) \<times> world"

definition SysRead :: BuiltinFunc where
  "SysRead ctx env input w =
     (case json_Unmarshal [''filename''] input of
        Inl err \<Rightarrow> (([], Some err), w)
      | Inr params \<Rightarrow>
          (case os_ReadFile (params ''filename'') w of
             (Inl err, w') \<Rightarrow> (([], Some err), w')
           | (Inr data, w') \<Rightarrow> ((data, None), w')))"

text \<open>The mode \<^verbatim>\<open>0644\<close> is octal: 420.\<close>

definition SysWrite :: BuiltinFunc where
  "SysWrite ctx env input w =
     (case json_Unmarshal [''filename'', ''content''] input of
        Inl err \<Rightarrow> (([], Some err), w)
      | Inr params \<Rightarrow>
          (let data = params ''content''
           in case os_WriteFile (params ''filename'') data 420 w of
                (err, w') \<Rightarrow> (([], err), w')))"

definition SysHTTPGet :: BuiltinFunc where
  "SysHTTPGet ctx env input w =
     (case json_Unmarshal [''url''] input of
        Inl err \<Rightarrow> (([], Some err), w)
      | Inr params \<Rightarrow>
          (case http_Get (params ''url'') w of
             (Inl err, w') \<Rightarrow> (([], Some err), w')
           | (Inr resp, w') \<Rightarrow>
               if StatusCode resp \<noteq> 200
               then (([], Some (Errorf (''failed to download '' @ params ''url'' @ '': '' @ Status resp))), w')
               else
                 (case Body resp of
                    Inl err \<Rightarrow> (([], Some err), w')
                  | Inr data \<Rightarrow> ((data, None), w'))))"

text \<open>
  \<^verbatim>\<open>SysHTTPPost\<close> reads the body of the response to its end and drops what it read,
  error included: \<open>Body resp\<close> does not occur in what it returns.
\<close>

definition SysHTTPPost :: BuiltinFunc where
  "SysHTTPPost ctx env input w =
     (case json_Unmarshal [''url'', ''content'', ''contentType''] input of
        Inl err \<Rightarrow> (([], Some err), w)
      | Inr params \<Rightarrow>
          (case http_NewRequestWithContext ctx ''POST'' (params ''url'') (params ''content'') w of
             Inl err \<Rightarrow> (([], Some err), w)
           | Inr req0 \<Rightarrow>
               (let req = (if params ''contentType'' \<noteq> []
                           then Header_Set ''Content-Type'' (params ''contentType'') req0
                           else req0)
                in case client_Do req w of
                     (Inl err, w') \<Rightarrow> (([], Some err), w')
                   | (Inr resp, w') \<Rightarrow>
                       if StatusCode resp > 399
                       then (([], Some (Errorf (''failed to post '' @ params ''url'' @ '': '' @ Status resp))), w')
                       else ((''Wrote '' @ itoa (length (params ''content'')) @ '' to '' @ params ''url'', None), w'))))"

definition SysAbort :: BuiltinFunc where
  "SysAbort ctx env input w =
     (case json_Unmarshal [''message''] input of
        Inl err \<Rightarrow> (([], Some err), w)
      | Inr params \<Rightarrow> (([], Some (Errorf (''ABORT: '' @ params ''message''))), w))"

subsection \<open>The registry\<close>

text \<open>
  Modelled from the spec: the declarations of \<^verbatim>\<open>types.Tool\<close> and \<^verbatim>\<open>types.ObjectSchema\<close>
  (package \<^verbatim>\<open>pkg/types\<close>) are not among the sources. The descriptor has the fields of the
  spec's data model: Name, ID, Instructions, Description, Arguments (a schema of named
  string parameters with their descriptions) and the handler. \<^verbatim>\<open>Arguments\<close> and
  \<^verbatim>\<open>BuiltinFunc\<close> can be \<^verbatim>\<open>nil\<close>, which is their zero value.
\<close>

type_synonym JSONSchema = "(string \<times> string) list"

fun ObjectSchema :: "string list \<Rightarrow> JSONSchema" where
  "ObjectSchema (name # description # kv) = (name, description) # ObjectSchema kv"
| "ObjectSchema _ = []"

record Tool =
  Name :: string
  ID :: string
  Instructions :: string
  Description :: string
  Arguments :: "JSONSchema option"
  BuiltinFunc :: "BuiltinFunc option"

definition zero_Tool :: Tool where
  "zero_Tool =
     \<lparr>Name = [], ID = [], Instructions = [], Description = [], Arguments = None, BuiltinFunc = None\<rparr>"

text \<open>
  The map literal \<^verbatim>\<open>Tools\<close>, entry by entry. The entries set Description, Arguments and
  BuiltinFunc; the other fields keep their zero value.
\<close>

definition Tools_entries :: "(string \<times> Tool) list" where
  "Tools_entries =
     [(''sys.read'',
         zero_Tool\<lparr>Description := ''Reads the contents of a file'',
           Arguments := Some (ObjectSchema [''filename'', ''The name of the file to read'']),
           BuiltinFunc := Some SysRead\<rparr>),
      (''sys.write'',
         zero_Tool\<lparr>Description := ''Write the contents to a file'',
           Arguments := Some (ObjectSchema
             [''filename'', ''The name of the file to write to'',
              ''content'', ''The content to write'']),
           BuiltinFunc := Some SysWrite\<rparr>),
      (''sys.http.get'',
         zero_Tool\<lparr>Description := ''Download the contents of a http or https URL'',
           Arguments := Some (ObjectSchema [''url'', ''The URL to download'']),
           BuiltinFunc := Some SysHTTPGet\<rparr>),
      (''sys.abort'',
         zero_Tool\<lparr>Description := ''Aborts execution'',
           Arguments := Some (ObjectSchema
             [''message'',
              ''The description of the error or unexpected result that caused abort to be called'']),
           BuiltinFunc := Some SysAbort\<rparr>),
      (''sys.http.post'',
         zero_Tool\<lparr>Description := ''Write contents to a http or https URL using the POST method'',
           Arguments := Some (ObjectSchema
             [''url'', ''The URL to POST to'',
              ''content'', ''The content to POST'',
              ''contentType'',
              ''The '' @ [CHR 0x22] @ ''content type'' @ [CHR 0x22] @
              '' of the content such as application/json or text/plain'']),
           BuiltinFunc := Some SysHTTPPost\<rparr>)]"

definition Tools :: "string \<Rightarrow> Tool option" where
  "Tools = map_of Tools_entries"

text \<open>
  \<^verbatim>\<open>Builtin\<close>: the map lookup gives the stored descriptor and \<^verbatim>\<open>true\<close>, or the zero
  descriptor and \<^verbatim>\<open>false\<close>; the three assignments follow in both cases.
\<close>

definition Builtin :: "string \<Rightarrow> Tool \<times> bool" where
  "Builtin name =
     (case (case Tools name of Some t \<Rightarrow> (t, True) | None \<Rightarrow> (zero_Tool, False)) of
        (t, ok) \<Rightarrow> (t\<lparr>Name := name, ID := name, Instructions := ''#!'' @ name\<rparr>, ok))"

text \<open>
  \<^verbatim>\<open>ListTools\<close> collects the keys of \<^verbatim>\<open>Tools\<close> with \<^verbatim>\<open>range\<close>, sorts them with
  \<^verbatim>\<open>sort.Strings\<close> (bytewise lexicographic order, the order of \<^typ>\<open>string\<close> here) and looks
  each one up. Go leaves the order in which \<^verbatim>\<open>range\<close> visits a map unspecified, so
  the order is the argument \<open>visit\<close> of \<open>ListTools_from\<close>; \<open>ListTools\<close> visits the keys
  as the literal lists them.
\<close>

definition ListTools_from :: "string list \<Rightarrow> Tool list" where
  "ListTools_from visit = map (\<lambda>key. fst (Builtin key)) (sort visit)"

definition ListTools :: "Tool list" where
  "ListTools = ListTools_from (map fst Tools_entries)"

subsection \<open>Members of an object and the fields of a struct\<close>

text \<open>
  Predicates on the members of an object, for a struct with the field names \<open>names\<close>:
  \<open>recognized\<close> holds of a key that \<^verbatim>\<open>Unmarshal\<close> stores in some field; \<open>omits\<close> holds
  when no key of the object is stored in the field \<open>f\<close>; \<open>well_typed\<close> holds when
  every member that is stored in a field is a string or \<^verbatim>\<open>null\<close>.
\<close>

definition recognized :: "string list \<Rightarrow> string \<Rightarrow> bool" where
  "recognized names key \<longleftrightarrow> find_field names key \<noteq> None"

definition omits :: "string list \<Rightarrow> (string \<times> json) list \<Rightarrow> string \<Rightarrow> bool" where
  "omits names kvs f \<longleftrightarrow> list_all (\<lambda>kv. find_field names (fst kv) \<noteq> Some f) kvs"

definition string_or_null :: "json \<Rightarrow> bool" where
  "string_or_null v = (case v of JString s \<Rightarrow> True | JNull \<Rightarrow> True | _ \<Rightarrow> False)"

definition well_typed :: "string list \<Rightarrow> (string \<times> json) list \<Rightarrow> bool" where
  "well_typed names kvs \<longleftrightarrow> list_all (\<lambda>kv. recognized names (fst kv) \<longrightarrow> string_or_null (snd kv)) kvs"

subsection \<open>Example inputs and an example world\<close>



definition example_server :: "request \<Rightarrow> error + response" where
  "example_server req =
     (if req_URL req = ''http://example.com/ok''
      then Inr \<lparr>Status = ''200 OK'', StatusCode = 200, Body = Inr ''pong''\<rparr>
      else if req_URL req = ''http://example.com/missing''
      then Inr \<lparr>Status = ''404 Not Found'', StatusCode = 404, Body = Inr ''not here''\<rparr>
      else Inl (TransportError ''no such host''))"

definition example_world :: world where
  "example_world =
     \<lparr>files = [''/etc/motd'' \<mapsto> File ''welcome'' True False,
               ''/dev/null'' \<mapsto> Device [],
               ''/var/spool/drop'' \<mapsto> File ''queued'' False True],
      umask = 18,
      no_access = (\<lambda>p. if p = ''/etc/shadow'' then Some ''permission denied'' else None),
      url_error = (\<lambda>u. if u = '':'' then Some (URLError ''missing protocol scheme'') else None),
      round_trip = example_server,
      trace = []\<rparr>"

definition malformed_example :: string where
  \<open>malformed_example = ''{"filename": "/etc/motd"''\<close>

definition abort_example :: string where
  \<open>abort_example = ''{"message":"disk full"}''\<close>

definition visit_example :: "string list" where
  "visit_example = [''sys.write'', ''sys.abort'', ''sys.http.post'', ''sys.read'', ''sys.http.get'']"

definition get_ok_example :: string where
  \<open>get_ok_example = ''{"url":"http://example.com/ok"}''\<close>

definition get_missing_example :: string where
  \<open>get_missing_example = ''{"url":"http://example.com/missing"}''\<close>

definition post_ok_example :: string where
  \<open>post_ok_example = ''{"url":"http://example.com/ok","content":"hello","contentType":"text/plain"}''\<close>

definition post_missing_example :: string where
  \<open>post_missing_example = ''{"url":"http://example.com/missing","content":"hello"}''\<close>

definition case_example :: string where
  \<open>case_example = ''{"filename":"/etc/motd","Filename":"/etc/shadow"}''\<close>

definition case_removed_example :: string where
  \<open>case_removed_example = ''{"filename":"/etc/motd"}''\<close>

definition extra_example :: string where
  \<open>extra_example = ''{"verbose":true,"filename":"/etc/motd","mode":[1,2]}''\<close>

definition omitted_example :: string where
  \<open>omitted_example = ''{"content":"hello"}''\<close>

definition type_error_example :: string where
  "type_error_example = ''[]''"





definition ill_typed_example :: string where
  \<open>ill_typed_example = ''{"content":5}''\<close>

definition case_only_example :: string where
  \<open>case_only_example = ''{"Filename":"/etc/motd"}''\<close>

section \<open>Properties\<close>

subsection \<open>Decoding lemmas\<close>

lemma Unmarshal_parsed:
  "parse_json input = Some v \<Longrightarrow> json_Unmarshal names input = decode_struct names v"
  by (simp add: json_Unmarshal_def)

lemma Unmarshal_url:
  "parse_json input = Some (JObject [(''url'', JString U)]) \<Longrightarrow>
   json_Unmarshal [''url''] input = Inr (zero_params(''url'' := U))"
  by (simp add: Unmarshal_parsed decode_struct_def store_member_def find_field_def)

lemma store_member_unrecognized:
  "\<not> recognized names key \<Longrightarrow> store_member names key v acc = acc"
  by (simp add: recognized_def store_member_def)

lemma store_members_filter:
  "store_members names (filter (\<lambda>kv. recognized names (fst kv)) kvs) acc = store_members names kvs acc"
proof (induction kvs arbitrary: acc)
  case Nil
  show ?case by simp
next
  case (Cons kv kvs)
  obtain key v where kv: "kv = (key, v)" by (cases kv)
  show ?case
  proof (cases "recognized names key")
    case True
    then show ?thesis by (simp add: kv Cons.IH)
  next
    case False
    then show ?thesis by (simp add: kv Cons.IH store_member_unrecognized)
  qed
qed

lemma store_member_no_error:
  "recognized names key \<longrightarrow> string_or_null v \<Longrightarrow> fst (store_member names key v acc) = fst acc"
  by (auto simp: recognized_def store_member_def string_or_null_def split: option.splits json.splits)

lemma store_members_no_error:
  "well_typed names kvs \<Longrightarrow> fst (store_members names kvs acc) = fst acc"
proof (induction kvs arbitrary: acc)
  case Nil
  show ?case by simp
next
  case (Cons kv kvs)
  obtain key v where kv: "kv = (key, v)" by (cases kv)
  from Cons.prems have hd: "recognized names key \<longrightarrow> string_or_null v" and tl: "well_typed names kvs"
    by (simp_all add: well_typed_def kv)
  have "fst (store_members names kvs (store_member names key v acc)) = fst (store_member names key v acc)"
    by (rule Cons.IH [OF tl])
  then show ?case by (simp add: kv store_member_no_error [OF hd])
qed

lemma store_member_other_field:
  "find_field names key \<noteq> Some f \<Longrightarrow> snd (store_member names key v acc) f = snd acc f"
  by (auto simp: store_member_def split: option.splits json.splits)

lemma store_members_omitted:
  "omits names kvs f \<Longrightarrow> snd (store_members names kvs acc) f = snd acc f"
proof (induction kvs arbitrary: acc)
  case Nil
  show ?case by simp
next
  case (Cons kv kvs)
  obtain key v where kv: "kv = (key, v)" by (cases kv)
  from Cons.prems have hd: "find_field names key \<noteq> Some f" and tl: "omits names kvs f"
    by (simp_all add: omits_def kv)
  have "snd (store_members names kvs (store_member names key v acc)) f
          = snd (store_member names key v acc) f"
    by (rule Cons.IH [OF tl])
  then show ?case by (simp add: kv store_member_other_field [OF hd])
qed

lemma decode_struct_omitted:
  assumes "well_typed names kvs"
  shows "\<exists>params. decode_struct names (JObject kvs) = Inr params
           \<and> (\<forall>f. omits names kvs f \<longrightarrow> params f = [])"
proof -
  obtain e p where sm: "store_members names kvs (None, zero_params) = (e, p)"
    by (cases "store_members names kvs (None, zero_params)")
  from store_members_no_error [OF assms, of "(None, zero_params)"] sm have "e = None" by simp
  moreover have "p f = []" if "omits names kvs f" for f
    using store_members_omitted [OF that, of "(None, zero_params)"] sm by (simp add: zero_params_def)
  ultimately show ?thesis using sm by (simp add: decode_struct_def)
qed

lemma sublist_suffix_part: "sublist x (a @ x)"
  by (metis append_Nil2 sublist_appendI)

lemma sublist_last_of_four: "sublist x (a @ b @ c @ x)"
  using sublist_suffix_part [of x "a @ b @ c"] by simp

subsection \<open>Reading back what was written\<close>




subsection \<open>The registry\<close>

lemma dom_Tools:
  "dom Tools = {''sys.read'', ''sys.write'', ''sys.http.get'', ''sys.abort'', ''sys.http.post''}"
  by (auto simp: Tools_def Tools_entries_def dom_def split: if_splits)

lemma Builtin_Name: "Name (fst (Builtin key)) = key"
  by (simp add: Builtin_def split: option.splits)

lemma Builtin_found: "snd (Builtin key) \<longleftrightarrow> key \<in> dom Tools"
  by (auto simp: Builtin_def split: option.splits)

text \<open>
  C5. For every name registered in \<open>Tools\<close>, \<open>Builtin\<close> returns \<^verbatim>\<open>true\<close> and a
  descriptor whose Name and ID are the name and whose Instructions is \<^verbatim>\<open>#!\<close> followed by
  the name.
\<close>

theorem Builtin_registered:
  assumes "name \<in> dom Tools"
  shows "snd (Builtin name) = True
       \<and> Name (fst (Builtin name)) = name
       \<and> ID (fst (Builtin name)) = name
       \<and> Instructions (fst (Builtin name)) = ''#!'' @ name"
  using assms by (auto simp: Builtin_def split: option.splits)

theorem Builtin_registered_witness:
  "''sys.read'' \<in> dom Tools
   \<and> snd (Builtin ''sys.read'') = True
   \<and> Name (fst (Builtin ''sys.read'')) = ''sys.read''
   \<and> ID (fst (Builtin ''sys.read'')) = ''sys.read''
   \<and> Instructions (fst (Builtin ''sys.read'')) = ''#!sys.read''"
proof -
  have h: "''sys.read'' \<in> dom Tools" by (simp add: dom_Tools)
  show ?thesis using Builtin_registered [OF h] h by simp
qed

text \<open>
  C2, as stated, fails: for a name that is not registered \<open>Builtin\<close> returns \<^verbatim>\<open>false\<close>,
  but the descriptor is not the zero value, because the three assignments are made
  whether or not the name was found. At \<^verbatim>\<open>nonexistent\<close> the Name is \<^verbatim>\<open>nonexistent\<close> and
  the Instructions are \<^verbatim>\<open>#!nonexistent\<close>.
\<close>

theorem Builtin_unregistered_counterexample:
  "''nonexistent'' \<notin> dom Tools
   \<and> fst (Builtin ''nonexistent'') \<noteq> zero_Tool
   \<and> Name (fst (Builtin ''nonexistent'')) = ''nonexistent''
   \<and> Instructions (fst (Builtin ''nonexistent'')) = ''#!nonexistent''
   \<and> Name zero_Tool = [] \<and> Instructions zero_Tool = []"
proof -
  have h: "''nonexistent'' \<notin> dom Tools" by (simp add: dom_Tools)
  have n: "Name (fst (Builtin ''nonexistent'')) = ''nonexistent''" by (rule Builtin_Name)
  have z: "Name zero_Tool = []" by (simp add: zero_Tool_def)
  from n z have "fst (Builtin ''nonexistent'') \<noteq> zero_Tool" by auto
  with h n z show ?thesis by (simp add: Builtin_def zero_Tool_def split: option.splits)
qed

text \<open>
  C2, amended. For every name that is not registered, \<open>Builtin\<close> returns \<^verbatim>\<open>false\<close> and
  the zero descriptor with Name and ID set to the name and Instructions set to \<^verbatim>\<open>#!\<close>
  followed by the name; Description, Arguments and BuiltinFunc are zero.
\<close>

theorem Builtin_unregistered:
  assumes "name \<notin> dom Tools"
  shows "Builtin name = (zero_Tool\<lparr>Name := name, ID := name, Instructions := ''#!'' @ name\<rparr>, False)"
  using assms by (auto simp: Builtin_def split: option.splits)

theorem Builtin_unregistered_witness:
  "''nonexistent'' \<notin> dom Tools
   \<and> Builtin ''nonexistent''
       = (zero_Tool\<lparr>Name := ''nonexistent'', ID := ''nonexistent'', Instructions := ''#!nonexistent''\<rparr>, False)"
proof -
  have h: "''nonexistent'' \<notin> dom Tools" by (simp add: dom_Tools)
  show ?thesis using Builtin_unregistered [OF h] h by simp
qed

text \<open>
  C6. Whatever the order in which the keys of \<open>Tools\<close> are visited, the list has as many
  entries as the registry, its Names ascend in lexicographic order, and every entry is
  the descriptor that \<open>Builtin\<close> returns for its Name, with \<^verbatim>\<open>true\<close>. The list does not
  depend on the visiting order.
\<close>

theorem ListTools_sorted_complete:
  assumes "distinct visit" and "set visit = dom Tools"
  shows "length (ListTools_from visit) = card (dom Tools)
       \<and> sorted (map Name (ListTools_from visit))
       \<and> distinct (map Name (ListTools_from visit))
       \<and> (\<forall>t \<in> set (ListTools_from visit). Name t \<in> dom Tools \<and> Builtin (Name t) = (t, True))
       \<and> ListTools_from visit = ListTools"
proof -
  have names: "map Name (ListTools_from visit) = sort visit"
    by (simp add: ListTools_from_def Builtin_Name o_def)
  have len: "length (ListTools_from visit) = card (dom Tools)"
    using assms by (simp add: ListTools_from_def distinct_card [symmetric])
  have each: "\<forall>t \<in> set (ListTools_from visit). Name t \<in> dom Tools \<and> Builtin (Name t) = (t, True)"
  proof
    fix t assume "t \<in> set (ListTools_from visit)"
    then obtain key where k: "key \<in> set visit" and t: "t = fst (Builtin key)"
      by (auto simp: ListTools_from_def)
    from k assms(2) have "key \<in> dom Tools" by simp
    then have "snd (Builtin key)" by (simp add: Builtin_found)
    with t \<open>key \<in> dom Tools\<close> show "Name t \<in> dom Tools \<and> Builtin (Name t) = (t, True)"
      by (simp add: Builtin_Name prod_eq_iff)
  qed
  have d: "distinct (map fst Tools_entries)" "set (map fst Tools_entries) = dom Tools"
    by (simp_all add: dom_Tools) (simp_all add: Tools_entries_def)
  have "sort visit = sort (map fst Tools_entries)"
    using assms d by (intro sorted_distinct_set_unique) simp_all
  then have same: "ListTools_from visit = ListTools"
    by (simp add: ListTools_def ListTools_from_def)
  show ?thesis using names len each same assms(1) by simp
qed

theorem ListTools_sorted_complete_witness:
  "distinct visit_example \<and> set visit_example = dom Tools
   \<and> length (ListTools_from visit_example) = 5
   \<and> map Name (ListTools_from visit_example)
       = [''sys.abort'', ''sys.http.get'', ''sys.http.post'', ''sys.read'', ''sys.write'']
   \<and> ListTools_from visit_example = ListTools"
proof -
  have h1: "distinct visit_example" by (simp add: visit_example_def)
  have h2: "set visit_example = dom Tools" by (auto simp: visit_example_def dom_Tools)
  have c: "card (dom Tools) = 5" by (simp add: dom_Tools)
  have n: "map Name (ListTools_from visit_example)
       = [''sys.abort'', ''sys.http.get'', ''sys.http.post'', ''sys.read'', ''sys.write'']"
    by code_simp
  from ListTools_sorted_complete [OF h1 h2]
  have l: "length (ListTools_from visit_example) = card (dom Tools)"
    and s: "ListTools_from visit_example = ListTools"
    by blast+
  from l c have l5: "length (ListTools_from visit_example) = 5" by (simp only:)
  from h1 h2 l5 n s show ?thesis by (intro conjI)
qed

subsection \<open>The handlers\<close>

text \<open>
  C3. When \<^verbatim>\<open>json.Unmarshal\<close> rejects the input for the handler's parameter struct
  (a syntax error, or a value of the wrong kind), each of the five handlers returns the
  empty string and that error, and the world is the one it was given: same files, same
  trace, so no file operation and no HTTP request was started.
\<close>

theorem decode_error_no_io:
  "(json_Unmarshal [''filename''] input = Inl e \<longrightarrow>
      SysRead ctx env input w = (([], Some e), w))
   \<and> (json_Unmarshal [''filename'', ''content''] input = Inl e \<longrightarrow>
      SysWrite ctx env input w = (([], Some e), w))
   \<and> (json_Unmarshal [''url''] input = Inl e \<longrightarrow>
      SysHTTPGet ctx env input w = (([], Some e), w))
   \<and> (json_Unmarshal [''url'', ''content'', ''contentType''] input = Inl e \<longrightarrow>
      SysHTTPPost ctx env input w = (([], Some e), w))
   \<and> (json_Unmarshal [''message''] input = Inl e \<longrightarrow>
      SysAbort ctx env input w = (([], Some e), w))"
  by (simp add: SysRead_def SysWrite_def SysHTTPGet_def SysHTTPPost_def SysAbort_def)

theorem decode_error_no_io_witness:
  "parse_json malformed_example = None
   \<and> SysRead Background [] malformed_example example_world = (([], Some SyntaxError), example_world)
   \<and> SysWrite Background [] malformed_example example_world = (([], Some SyntaxError), example_world)
   \<and> SysHTTPGet Background [] malformed_example example_world = (([], Some SyntaxError), example_world)
   \<and> SysHTTPPost Background [] malformed_example example_world = (([], Some SyntaxError), example_world)
   \<and> SysAbort Background [] malformed_example example_world = (([], Some SyntaxError), example_world)
   \<and> parse_json type_error_example = Some (JArray [])
   \<and> SysWrite Background [] type_error_example example_world
       = (([], Some (UnmarshalTypeError ''array'' [])), example_world)"
proof -
  have p: "parse_json malformed_example = None" by code_simp
  then have u: "\<And>names. json_Unmarshal names malformed_example = Inl SyntaxError"
    by (simp add: json_Unmarshal_def)
  have q: "parse_json type_error_example = Some (JArray [])" by code_simp
  then have v: "\<And>names. json_Unmarshal names type_error_example = Inl (UnmarshalTypeError ''array'' [])"
    by (simp add: json_Unmarshal_def decode_struct_def json_kind_def)
  show ?thesis
    using decode_error_no_io [of malformed_example SyntaxError Background "[]" example_world]
      decode_error_no_io [of type_error_example "UnmarshalTypeError ''array'' []" Background "[]"
        example_world] p u q v
    by simp
qed

text \<open>
  C4. \<open>SysAbort\<close> returns an error for every input. When the input decodes, the error
  is the one formatted from \<^verbatim>\<open>ABORT: %s\<close> and the message; its text contains \<^verbatim>\<open>ABORT:\<close>
  and contains the message, also when the message is empty.
\<close>

theorem SysAbort_always_fails:
  "snd (fst (SysAbort ctx env input w)) \<noteq> None
   \<and> (\<forall>params. json_Unmarshal [''message''] input = Inr params \<longrightarrow>
         SysAbort ctx env input w = (([], Some (Errorf (''ABORT: '' @ params ''message''))), w)
         \<and> sublist ''ABORT:'' (''ABORT: '' @ params ''message'')
         \<and> sublist (params ''message'') (''ABORT: '' @ params ''message''))"
proof -
  have marker: "sublist ''ABORT:'' (''ABORT: '' @ x)" for x
    using sublist_appendI [of "''ABORT:''" "[]" "CHR '' '' # x"] by simp
  have message: "sublist x (''ABORT: '' @ x)" for x
    by (rule sublist_suffix_part)
  have fails: "snd (fst (SysAbort ctx env input w)) \<noteq> None"
    by (simp add: SysAbort_def split: sum.splits)
  have abort: "SysAbort ctx env input w = (([], Some (Errorf (''ABORT: '' @ params ''message''))), w)"
    if "json_Unmarshal [''message''] input = Inr params" for params
    using that by (simp add: SysAbort_def)
  show ?thesis using marker message fails abort by blast
qed

theorem SysAbort_always_fails_witness:
  "parse_json abort_example = Some (JObject [(''message'', JString ''disk full'')])
   \<and> SysAbort Background [] abort_example example_world
       = (([], Some (Errorf ''ABORT: disk full'')), example_world)
   \<and> sublist ''ABORT:'' ''ABORT: disk full'' \<and> sublist ''disk full'' ''ABORT: disk full''"
proof -
  have p: "parse_json abort_example = Some (JObject [(''message'', JString ''disk full'')])"
    by code_simp
  then have u: "json_Unmarshal [''message''] abort_example = Inr (zero_params(''message'' := ''disk full''))"
    by (simp add: Unmarshal_parsed decode_struct_def store_member_def find_field_def)
  show ?thesis
    using SysAbort_always_fails [of Background "[]" abort_example example_world] p u by simp
qed

text \<open>
  C7. \<open>SysHTTPGet\<close> sends a \<^verbatim>\<open>GET\<close> request for the decoded URL. When the response has
  status code 200 and its body reads as \<open>S\<close>, the handler returns exactly \<open>S\<close> and no
  error. When the status code is anything else, other 2xx codes included, it returns the
  empty string (not the body) and the error formatted from
  \<^verbatim>\<open>failed to download %s: %s\<close>, whose text contains the URL and the status text.
\<close>

theorem SysHTTPGet_status:
  assumes "json_Unmarshal [''url''] input = Inr params"
    and "url_error w (params ''url'') = None"
    and "round_trip w \<lparr>req_Ctx = Background, req_Method = ''GET'', req_URL = params ''url'',
           req_Header = [], req_Body = []\<rparr> = Inr resp"
  shows "(StatusCode resp = 200 \<longrightarrow> (\<forall>S. Body resp = Inr S \<longrightarrow>
            fst (SysHTTPGet ctx env input w) = (S, None)))
       \<and> (StatusCode resp \<noteq> 200 \<longrightarrow>
            fst (SysHTTPGet ctx env input w)
              = ([], Some (Errorf (''failed to download '' @ params ''url'' @ '': '' @ Status resp)))
            \<and> sublist (params ''url'') (''failed to download '' @ params ''url'' @ '': '' @ Status resp)
            \<and> sublist (Status resp) (''failed to download '' @ params ''url'' @ '': '' @ Status resp))"
proof -
  have get: "http_Get (params ''url'') w
      = (Inr resp, log_event (HTTPEvent \<lparr>req_Ctx = Background, req_Method = ''GET'',
           req_URL = params ''url'', req_Header = [], req_Body = []\<rparr>) w)"
    using assms(2,3) by (simp add: http_Get_def http_NewRequestWithContext_def client_Do_def)
  have ok: "fst (SysHTTPGet ctx env input w) = (S, None)"
    if "StatusCode resp = 200" "Body resp = Inr S" for S
    using that assms(1) get by (simp add: SysHTTPGet_def)
  have bad: "fst (SysHTTPGet ctx env input w)
      = ([], Some (Errorf (''failed to download '' @ params ''url'' @ '': '' @ Status resp)))"
    if "StatusCode resp \<noteq> 200"
    using that assms(1) get by (simp add: SysHTTPGet_def)
  have u: "sublist (params ''url'') (''failed to download '' @ params ''url'' @ '': '' @ Status resp)"
    by (rule sublist_appendI)
  have s: "sublist (Status resp) (''failed to download '' @ params ''url'' @ '': '' @ Status resp)"
    by (rule sublist_last_of_four)
  show ?thesis using ok bad u s by blast
qed

theorem SysHTTPGet_status_witness:
  "parse_json get_ok_example = Some (JObject [(''url'', JString ''http://example.com/ok'')])
   \<and> fst (SysHTTPGet Background [] get_ok_example example_world) = (''pong'', None)
   \<and> parse_json get_missing_example = Some (JObject [(''url'', JString ''http://example.com/missing'')])
   \<and> fst (SysHTTPGet Background [] get_missing_example example_world)
       = ([], Some (Errorf ''failed to download http://example.com/missing: 404 Not Found''))"
proof -
  have p1: "parse_json get_ok_example = Some (JObject [(''url'', JString ''http://example.com/ok'')])"
    by code_simp
  have p2: "parse_json get_missing_example = Some (JObject [(''url'', JString ''http://example.com/missing'')])"
    by code_simp
  have r1: "fst (SysHTTPGet Background [] get_ok_example example_world) = (''pong'', None)"
    using SysHTTPGet_status [OF Unmarshal_url [OF p1], of example_world
        "\<lparr>Status = ''200 OK'', StatusCode = 200, Body = Inr ''pong''\<rparr>" Background "[]"]
    by (simp add: example_world_def example_server_def)
  have r2: "fst (SysHTTPGet Background [] get_missing_example example_world)
       = ([], Some (Errorf ''failed to download http://example.com/missing: 404 Not Found''))"
    using SysHTTPGet_status [OF Unmarshal_url [OF p2], of example_world
        "\<lparr>Status = ''404 Not Found'', StatusCode = 404, Body = Inr ''not here''\<rparr>" Background "[]"]
    by (simp add: example_world_def example_server_def)
  from p1 r1 p2 r2 show ?thesis by (intro conjI)
qed

text \<open>
  C8. \<open>SysHTTPPost\<close> sends a \<^verbatim>\<open>POST\<close> request for the decoded URL with the content as
  body, and the Content-Type header when \<^verbatim>\<open>contentType\<close> is not empty. When the status
  code of the response is at most 399, it returns \<^verbatim>\<open>Wrote %d to %s\<close> with the number
  of bytes of the content and the URL, and no error; the body of the response is not part
  of the result, whatever it is and whether or not reading it fails. When the status code
  is greater than 399, the error is formatted from \<^verbatim>\<open>failed to post %s: %s\<close> and its
  text contains the URL and the status text.
\<close>

theorem SysHTTPPost_status:
  assumes "json_Unmarshal [''url'', ''content'', ''contentType''] input = Inr params"
    and "url_error w (params ''url'') = None"
    and "round_trip w \<lparr>req_Ctx = ctx, req_Method = ''POST'', req_URL = params ''url'',
           req_Header = (if params ''contentType'' = [] then []
                         else [(''Content-Type'', params ''contentType'')]),
           req_Body = params ''content''\<rparr> = Inr resp"
  shows "(StatusCode resp \<le> 399 \<longrightarrow>
            fst (SysHTTPPost ctx env input w)
              = (''Wrote '' @ itoa (length (params ''content'')) @ '' to '' @ params ''url'', None)
            \<and> sublist (itoa (length (params ''content'')))
                 (''Wrote '' @ itoa (length (params ''content'')) @ '' to '' @ params ''url'')
            \<and> sublist (params ''url'')
                 (''Wrote '' @ itoa (length (params ''content'')) @ '' to '' @ params ''url''))
       \<and> (StatusCode resp > 399 \<longrightarrow>
            fst (SysHTTPPost ctx env input w)
              = ([], Some (Errorf (''failed to post '' @ params ''url'' @ '': '' @ Status resp)))
            \<and> sublist (params ''url'') (''failed to post '' @ params ''url'' @ '': '' @ Status resp)
            \<and> sublist (Status resp) (''failed to post '' @ params ''url'' @ '': '' @ Status resp))"
proof -
  let ?req = "\<lparr>req_Ctx = ctx, req_Method = ''POST'', req_URL = params ''url'',
           req_Header = (if params ''contentType'' = [] then []
                         else [(''Content-Type'', params ''contentType'')]),
           req_Body = params ''content''\<rparr>"
  have new: "http_NewRequestWithContext ctx ''POST'' (params ''url'') (params ''content'') w
      = Inr \<lparr>req_Ctx = ctx, req_Method = ''POST'', req_URL = params ''url'',
             req_Header = [], req_Body = params ''content''\<rparr>"
    using assms(2) by (simp add: http_NewRequestWithContext_def)
  have hdr: "(if params ''contentType'' \<noteq> []
              then Header_Set ''Content-Type'' (params ''contentType'')
                     \<lparr>req_Ctx = ctx, req_Method = ''POST'', req_URL = params ''url'',
                      req_Header = [], req_Body = params ''content''\<rparr>
              else \<lparr>req_Ctx = ctx, req_Method = ''POST'', req_URL = params ''url'',
                      req_Header = [], req_Body = params ''content''\<rparr>) = ?req"
    by (simp add: Header_Set_def)
  have do: "client_Do ?req w = (Inr resp, log_event (HTTPEvent ?req) w)"
    using assms(3) by (simp add: client_Do_def)
  have run: "SysHTTPPost ctx env input w =
     (if StatusCode resp > 399
      then (([], Some (Errorf (''failed to post '' @ params ''url'' @ '': '' @ Status resp))),
            log_event (HTTPEvent ?req) w)
      else ((''Wrote '' @ itoa (length (params ''content'')) @ '' to '' @ params ''url'', None),
            log_event (HTTPEvent ?req) w))"
    unfolding SysHTTPPost_def using assms(1) new hdr do
    by (simp only: sum.case Let_def prod.case)
  have ok: "fst (SysHTTPPost ctx env input w)
      = (''Wrote '' @ itoa (length (params ''content'')) @ '' to '' @ params ''url'', None)"
    if "StatusCode resp \<le> 399"
    using that by (simp add: run)
  have bad: "fst (SysHTTPPost ctx env input w)
      = ([], Some (Errorf (''failed to post '' @ params ''url'' @ '': '' @ Status resp)))"
    if "StatusCode resp > 399"
    using that by (simp add: run)
  have n: "sublist (itoa (length (params ''content'')))
            (''Wrote '' @ itoa (length (params ''content'')) @ '' to '' @ params ''url'')"
    by (rule sublist_appendI)
  have u1: "sublist (params ''url'')
            (''Wrote '' @ itoa (length (params ''content'')) @ '' to '' @ params ''url'')"
    by (rule sublist_last_of_four)
  have u2: "sublist (params ''url'') (''failed to post '' @ params ''url'' @ '': '' @ Status resp)"
    by (rule sublist_appendI)
  have s: "sublist (Status resp) (''failed to post '' @ params ''url'' @ '': '' @ Status resp)"
    by (rule sublist_last_of_four)
  show ?thesis using ok bad n u1 u2 s by blast
qed


theorem SysHTTPPost_status_witness:
  "fst (SysHTTPPost (Caller 1) [] post_ok_example example_world)
       = (''Wrote 5 to http://example.com/ok'', None)
   \<and> sublist ''5'' ''Wrote 5 to http://example.com/ok''
   \<and> sublist ''http://example.com/ok'' ''Wrote 5 to http://example.com/ok''
   \<and> fst (SysHTTPPost (Caller 1) [] post_missing_example example_world)
       = ([], Some (Errorf ''failed to post http://example.com/missing: 404 Not Found''))"
proof -
  have p1: "parse_json post_ok_example = Some (JObject [(''url'', JString ''http://example.com/ok''),
       (''content'', JString ''hello''), (''contentType'', JString ''text/plain'')])"
    by code_simp
  have p2: "parse_json post_missing_example = Some (JObject
       [(''url'', JString ''http://example.com/missing''), (''content'', JString ''hello'')])"
    by code_simp
  have u1: "json_Unmarshal [''url'', ''content'', ''contentType''] post_ok_example
      = Inr (zero_params(''url'' := ''http://example.com/ok'', ''content'' := ''hello'',
               ''contentType'' := ''text/plain''))"
    using p1 by (simp add: Unmarshal_parsed decode_struct_def store_member_def find_field_def)
  have u2: "json_Unmarshal [''url'', ''content'', ''contentType''] post_missing_example
      = Inr (zero_params(''url'' := ''http://example.com/missing'', ''content'' := ''hello''))"
    using p2 by (simp add: Unmarshal_parsed decode_struct_def store_member_def find_field_def)
  have five: "itoa 5 = ''5''" by code_simp
  have r1: "fst (SysHTTPPost (Caller 1) [] post_ok_example example_world)
       = (''Wrote 5 to http://example.com/ok'', None)
     \<and> sublist ''5'' ''Wrote 5 to http://example.com/ok''
     \<and> sublist ''http://example.com/ok'' ''Wrote 5 to http://example.com/ok''"
    using SysHTTPPost_status [OF u1, of example_world "Caller 1"
        "\<lparr>Status = ''200 OK'', StatusCode = 200, Body = Inr ''pong''\<rparr>" "[]"] five
    by (simp add: example_world_def example_server_def zero_params_def)
  have r2: "fst (SysHTTPPost (Caller 1) [] post_missing_example example_world)
       = ([], Some (Errorf ''failed to post http://example.com/missing: 404 Not Found''))"
    using SysHTTPPost_status [OF u2, of example_world "Caller 1"
        "\<lparr>Status = ''404 Not Found'', StatusCode = 404, Body = Inr ''not here''\<rparr>" "[]"]
    by (simp add: example_world_def example_server_def zero_params_def)
  from r1 r2 show ?thesis by blast
qed

text \<open>
  C9, as stated, fails in two ways. The object \<^verbatim>\<open>{"content":5}\<close> omits \<^verbatim>\<open>filename\<close>
  and \<open>SysWrite\<close> rejects it at decode time, with no call on the filesystem, because the
  member that is present is not a string. The object \<^verbatim>\<open>{"Filename":"/etc/motd"}\<close> has no
  key \<^verbatim>\<open>filename\<close> and \<open>SysRead\<close> reads \<^verbatim>\<open>/etc/motd\<close>, not the empty path, because
  \<^verbatim>\<open>Unmarshal\<close> also matches keys ignoring case.
\<close>

theorem omitted_field_counterexample:
  "parse_json ill_typed_example = Some (JObject [(''content'', JNumber ''5'')])
   \<and> ''filename'' \<notin> set (map fst [(''content'', JNumber ''5'')])
   \<and> SysWrite Background [] ill_typed_example example_world
       = (([], Some (UnmarshalTypeError ''number'' ''content'')), example_world)
   \<and> parse_json case_only_example = Some (JObject [(''Filename'', JString ''/etc/motd'')])
   \<and> ''filename'' \<notin> set (map fst [(''Filename'', JString ''/etc/motd'')])
   \<and> fst (SysRead Background [] case_only_example example_world) = (''welcome'', None)
   \<and> trace (snd (SysRead Background [] case_only_example example_world))
       = [ReadFileEvent ''/etc/motd'']"
proof -
  have a: "parse_json ill_typed_example = Some (JObject [(''content'', JNumber ''5'')])"
    by code_simp
  have b: "''filename'' \<notin> set (map fst [(''content'', JNumber ''5'')])" by simp
  from a have "json_Unmarshal [''filename'', ''content''] ill_typed_example
      = Inl (UnmarshalTypeError ''number'' ''content'')"
    by (simp add: Unmarshal_parsed decode_struct_def store_member_def find_field_def
                  saveError_def json_kind_def)
  then have c: "SysWrite Background [] ill_typed_example example_world
       = (([], Some (UnmarshalTypeError ''number'' ''content'')), example_world)"
    by (simp add: SysWrite_def)
  have d: "parse_json case_only_example = Some (JObject [(''Filename'', JString ''/etc/motd'')])"
    by code_simp
  have e: "''filename'' \<notin> set (map fst [(''Filename'', JString ''/etc/motd'')])" by simp
  have f: "fst (SysRead Background [] case_only_example example_world) = (''welcome'', None)"
    by code_simp
  have g: "trace (snd (SysRead Background [] case_only_example example_world))
       = [ReadFileEvent ''/etc/motd'']"
    by code_simp
  from a b c d e f g show ?thesis by (intro conjI)
qed

text \<open>
  C9, amended. An object whose members that are stored in a field are strings or
  \<^verbatim>\<open>null\<close> is decoded without error whatever fields it omits, for every list of field
  names, so for every handler; a field is omitted when no key of the object names it,
  exactly or ignoring case, and each omitted field is the empty string. On such an object
  with \<^verbatim>\<open>filename\<close> omitted, \<open>SysRead\<close> calls \<^verbatim>\<open>os.ReadFile\<close> and \<open>SysWrite\<close> calls
  \<^verbatim>\<open>os.WriteFile\<close> on the empty path: the call is in the trace and the error is the one
  of the filesystem, not one of decoding.
\<close>

theorem omitted_field_defaults:
  assumes "parse_json input = Some (JObject kvs)"
  shows "(well_typed names kvs \<longrightarrow>
           (\<exists>params. json_Unmarshal names input = Inr params
              \<and> (\<forall>f. omits names kvs f \<longrightarrow> params f = [])))
       \<and> (well_typed [''filename''] kvs \<and> omits [''filename''] kvs ''filename'' \<longrightarrow>
           SysRead ctx env input w
             = (([], Some (PathError ''open'' [] ENOENT)), log_event (ReadFileEvent []) w))
       \<and> (well_typed [''filename'', ''content''] kvs
            \<and> omits [''filename'', ''content''] kvs ''filename'' \<longrightarrow>
           (\<exists>params. json_Unmarshal [''filename'', ''content''] input = Inr params
              \<and> SysWrite ctx env input w
                  = (([], Some (PathError ''open'' [] ENOENT)),
                     log_event (WriteFileEvent [] (params ''content'') 420) w)))"
proof -
  have decode: "\<exists>params. json_Unmarshal ns input = Inr params
                  \<and> (\<forall>f. omits ns kvs f \<longrightarrow> params f = [])"
    if "well_typed ns kvs" for ns
    using decode_struct_omitted [OF that] assms by (simp add: Unmarshal_parsed)
  have rd: "SysRead ctx env input w
             = (([], Some (PathError ''open'' [] ENOENT)), log_event (ReadFileEvent []) w)"
    if "well_typed [''filename''] kvs" "omits [''filename''] kvs ''filename''"
  proof -
    from decode [OF that(1)] that(2) obtain params
      where "json_Unmarshal [''filename''] input = Inr params" "params ''filename'' = []"
      by blast
    then show ?thesis by (simp add: SysRead_def os_ReadFile_def Let_def)
  qed
  have wr: "\<exists>params. json_Unmarshal [''filename'', ''content''] input = Inr params
              \<and> SysWrite ctx env input w
                  = (([], Some (PathError ''open'' [] ENOENT)),
                     log_event (WriteFileEvent [] (params ''content'') 420) w)"
    if "well_typed [''filename'', ''content''] kvs" "omits [''filename'', ''content''] kvs ''filename''"
  proof -
    from decode [OF that(1)] that(2) obtain params
      where "json_Unmarshal [''filename'', ''content''] input = Inr params" "params ''filename'' = []"
      by blast
    then show ?thesis by (simp add: SysWrite_def os_WriteFile_def Let_def)
  qed
  show ?thesis using decode rd wr by blast
qed

theorem omitted_field_defaults_witness:
  "parse_json omitted_example = Some (JObject [(''content'', JString ''hello'')])
   \<and> omits [''filename''] [(''content'', JString ''hello'')] ''filename''
   \<and> omits [''filename'', ''content''] [(''content'', JString ''hello'')] ''filename''
   \<and> SysRead Background [] omitted_example example_world
       = (([], Some (PathError ''open'' [] ENOENT)), log_event (ReadFileEvent []) example_world)
   \<and> SysWrite Background [] omitted_example example_world
       = (([], Some (PathError ''open'' [] ENOENT)),
          log_event (WriteFileEvent [] ''hello'' 420) example_world)"
proof -
  let ?kvs = "[(''content'', JString ''hello'')]"
  have p: "parse_json omitted_example = Some (JObject ?kvs)" by code_simp
  have t1: "well_typed [''filename''] ?kvs" by code_simp
  have o1: "omits [''filename''] ?kvs ''filename''" by code_simp
  have t2: "well_typed [''filename'', ''content''] ?kvs" by code_simp
  have o2: "omits [''filename'', ''content''] ?kvs ''filename''" by code_simp
  have u: "json_Unmarshal [''filename'', ''content''] omitted_example
            = Inr (zero_params(''content'' := ''hello''))"
    using p by (simp add: Unmarshal_parsed decode_struct_def store_member_def find_field_def)
  note inst = omitted_field_defaults [OF p, of _ Background "[]" example_world]
  from inst t1 o1 have r: "SysRead Background [] omitted_example example_world
       = (([], Some (PathError ''open'' [] ENOENT)), log_event (ReadFileEvent []) example_world)"
    by blast
  from inst t2 o2 obtain params
    where "json_Unmarshal [''filename'', ''content''] omitted_example = Inr params"
      and "SysWrite Background [] omitted_example example_world
            = (([], Some (PathError ''open'' [] ENOENT)),
               log_event (WriteFileEvent [] (params ''content'') 420) example_world)"
    by blast
  with u have wr: "SysWrite Background [] omitted_example example_world
       = (([], Some (PathError ''open'' [] ENOENT)),
          log_event (WriteFileEvent [] ''hello'' 420) example_world)"
    by simp
  from p o1 o2 r wr show ?thesis by (intro conjI)
qed

text \<open>
  C10, as stated, fails: a member whose key is none of the declared parameter names can
  change the result, because \<^verbatim>\<open>Unmarshal\<close> also matches keys ignoring case. The key
  \<^verbatim>\<open>Filename\<close> is not the declared name \<^verbatim>\<open>filename\<close>, yet its value replaces the one
  of \<^verbatim>\<open>filename\<close>: the handler opens \<^verbatim>\<open>/etc/shadow\<close>, and with the member removed it
  reads \<^verbatim>\<open>/etc/motd\<close>.
\<close>

theorem unrecognized_members_counterexample:
  "parse_json case_example
     = Some (JObject [(''filename'', JString ''/etc/motd''), (''Filename'', JString ''/etc/shadow'')])
   \<and> ''Filename'' \<notin> set [''filename'']
   \<and> parse_json case_removed_example = Some (JObject [(''filename'', JString ''/etc/motd'')])
   \<and> fst (SysRead Background [] case_removed_example example_world) = (''welcome'', None)
   \<and> fst (SysRead Background [] case_example example_world)
       = ([], Some (PathError ''open'' ''/etc/shadow'' ''permission denied''))"
proof -
  have a: "parse_json case_example
     = Some (JObject [(''filename'', JString ''/etc/motd''), (''Filename'', JString ''/etc/shadow'')])"
    by code_simp
  have b: "''Filename'' \<notin> set [''filename'']" by simp
  have c: "parse_json case_removed_example = Some (JObject [(''filename'', JString ''/etc/motd'')])"
    by code_simp
  have d: "fst (SysRead Background [] case_removed_example example_world) = (''welcome'', None)"
    by code_simp
  have e: "fst (SysRead Background [] case_example example_world)
       = ([], Some (PathError ''open'' ''/etc/shadow'' ''permission denied''))"
    by code_simp
  from a b c d e show ?thesis by (intro conjI)
qed

text \<open>
  C10, amended. Members whose keys match none of the handler's declared parameter names,
  neither exactly nor under case folding, do not count: the object decodes to the same
  parameters or the same error as the object with those members removed, and each of the
  five handlers returns the same result and leaves the same world on both inputs.
\<close>

theorem unrecognized_members_ignored:
  assumes "parse_json input = Some (JObject kvs)"
    and "parse_json input' = Some (JObject (filter (\<lambda>kv. recognized names (fst kv)) kvs))"
  shows "json_Unmarshal names input' = json_Unmarshal names input
       \<and> (names = [''filename''] \<longrightarrow> SysRead ctx env input' w = SysRead ctx env input w)
       \<and> (names = [''filename'', ''content''] \<longrightarrow>
            SysWrite ctx env input' w = SysWrite ctx env input w)
       \<and> (names = [''url''] \<longrightarrow> SysHTTPGet ctx env input' w = SysHTTPGet ctx env input w)
       \<and> (names = [''url'', ''content'', ''contentType''] \<longrightarrow>
            SysHTTPPost ctx env input' w = SysHTTPPost ctx env input w)
       \<and> (names = [''message''] \<longrightarrow> SysAbort ctx env input' w = SysAbort ctx env input w)"
proof -
  have eq: "json_Unmarshal names input' = json_Unmarshal names input"
    using assms by (simp add: Unmarshal_parsed decode_struct_def store_members_filter)
  then show ?thesis
    by (auto simp: SysRead_def SysWrite_def SysHTTPGet_def SysHTTPPost_def SysAbort_def)
qed

theorem unrecognized_members_ignored_witness:
  "parse_json extra_example
     = Some (JObject [(''verbose'', JBool True), (''filename'', JString ''/etc/motd''),
                      (''mode'', JArray [JNumber ''1'', JNumber ''2''])])
   \<and> parse_json case_removed_example = Some (JObject [(''filename'', JString ''/etc/motd'')])
   \<and> SysRead Background [] case_removed_example example_world
       = SysRead Background [] extra_example example_world
   \<and> fst (SysRead Background [] extra_example example_world) = (''welcome'', None)"
proof -
  let ?kvs = "[(''verbose'', JBool True), (''filename'', JString ''/etc/motd''),
               (''mode'', JArray [JNumber ''1'', JNumber ''2''])]"
  have p: "parse_json extra_example = Some (JObject ?kvs)" by code_simp
  have q: "parse_json case_removed_example = Some (JObject [(''filename'', JString ''/etc/motd'')])"
    by code_simp
  have f: "filter (\<lambda>kv. recognized [''filename''] (fst kv)) ?kvs = [(''filename'', JString ''/etc/motd'')]"
    by code_simp
  from q f have q': "parse_json case_removed_example
      = Some (JObject (filter (\<lambda>kv. recognized [''filename''] (fst kv)) ?kvs))"
    by (simp only:)
  have r: "fst (SysRead Background [] extra_example example_world) = (''welcome'', None)"
    by code_simp
  from unrecognized_members_ignored [OF p q', of Background "[]" example_world]
  have s: "SysRead Background [] case_removed_example example_world
       = SysRead Background [] extra_example example_world"
    by blast
  from p q s r show ?thesis by (intro conjI)
qed

end
